theory Spec2Isabelle
  imports Complex_Main "HOL-Library.AList"
begin

section \<open>The object model of the virtual machine, as far as the Ripper library uses it\<close>

text \<open>
  The guest-language values that \<^verbatim>\<open>vm/ripper.go\<close> builds or inspects. A Go
  \<^verbatim>\<open>map[string]Object\<close> is an association list whose keys are kept distinct by
  \<open>AList.update\<close>; it is read with \<open>map_of\<close>. \<open>OtherObject c\<close> stands for an
  object of any other class, named \<open>c\<close>. An error object carries its error class, the
  source line and the formatted message.
\<close>

datatype Object =
    StringObject string
  | IntegerObject int
  | FloatObject real
  | ArrayObject "Object list"
  | HashObject "(string \<times> Object) list"
  | NullObject
  | Error string int string
  | OtherObject string

text \<open>The receiver of a class method is the class itself; only its name is used.\<close>

datatype RClass = RClass string

fun toString_RClass :: "RClass \<Rightarrow> string" where
  "toString_RClass (RClass n) = n"

text \<open>\<^verbatim>\<open>arg.Class().Name\<close>: class names as the expected messages of
  \<^verbatim>\<open>ripper_test.go\<close> print them (Integer, Float, Array, Hash, String); an error
  object has the name of its error class.\<close>

fun className :: "Object \<Rightarrow> string" where
  "className (StringObject _) = ''String''"
| "className (IntegerObject _) = ''Integer''"
| "className (FloatObject _) = ''Float''"
| "className (ArrayObject _) = ''Array''"
| "className (HashObject _) = ''Hash''"
| "className NullObject = ''Null''"
| "className (Error t _ _) = t"
| "className (OtherObject c) = c"

fun isError :: "Object \<Rightarrow> bool" where
  "isError (Error _ _ _) = True"
| "isError _ = False"

subsection \<open>Formatted messages\<close>

text \<open>
  Go's \<^verbatim>\<open>fmt.Sprintf\<close> for the verbs these files use (\<^verbatim>\<open>%s\<close> on a string,
  \<^verbatim>\<open>%d\<close> on an integer), with Go's markers for a missing operand, a wrong operand
  and surplus operands.
\<close>

datatype fmt_arg = ArgString string | ArgInt int

fun digits :: "nat \<Rightarrow> string" where
  "digits n = (if n < 10 then [''0123456789'' ! n]
               else digits (n div 10) @ [''0123456789'' ! (n mod 10)])"

declare digits.simps [simp del]

definition itoa :: "int \<Rightarrow> string" where
  "itoa i = (if i < 0 then CHR ''-'' # digits (nat (- i)) else digits (nat i))"

fun fmt_operand :: "fmt_arg \<Rightarrow> string" where
  "fmt_operand (ArgString s) = ''string='' @ s"
| "fmt_operand (ArgInt i) = ''int='' @ itoa i"

fun join :: "string \<Rightarrow> string list \<Rightarrow> string" where
  "join sep [] = []"
| "join sep [x] = x"
| "join sep (x # y # ys) = x @ sep @ join sep (y # ys)"

fun fmt_verb :: "char \<Rightarrow> fmt_arg \<Rightarrow> string" where
  "fmt_verb v (ArgString s) =
     (if v = CHR ''s'' then s else ''%!'' @ [v] @ ''('' @ fmt_operand (ArgString s) @ '')'')"
| "fmt_verb v (ArgInt i) =
     (if v = CHR ''d'' then itoa i else ''%!'' @ [v] @ ''('' @ fmt_operand (ArgInt i) @ '')'')"

fun Sprintf :: "string \<Rightarrow> fmt_arg list \<Rightarrow> string" where
  "Sprintf [] [] = []"
| "Sprintf [] (a # as) = ''%!(EXTRA '' @ join '', '' (map fmt_operand (a # as)) @ '')''"
| "Sprintf (c # fs) as =
     (if c = CHR ''%'' then
        (case fs of
           [] \<Rightarrow> ''%!(NOVERB)''
         | v # fs' \<Rightarrow>
             (case as of
                [] \<Rightarrow> ''%!'' @ [v] @ ''(MISSING)'' @ Sprintf fs' []
              | a # as' \<Rightarrow> fmt_verb v a @ Sprintf fs' as'))
      else c # Sprintf fs as)"

subsection \<open>Error classes, messages and constructors\<close>

text \<open>
  Modelled from the spec: packages \<^verbatim>\<open>vm/errors\<close> and \<^verbatim>\<open>vm/classes\<close> and the
  error constructors of the VM are not under src/. The spec asks for a typed-error
  constructor taking an error category, a source line and a formatted message. The
  constants are spelled as the expected messages of \<^verbatim>\<open>ripper_test.go\<close> and the
  documentation of \<^verbatim>\<open>Ripper.parse\<close> print them.
\<close>

definition ArgumentError :: string where "ArgumentError = ''ArgumentError''"
definition TypeError :: string where "TypeError = ''TypeError''"
definition UnsupportedMethodError :: string where
  "UnsupportedMethodError = ''UnsupportedMethodError''"
definition WrongArgumentTypeFormat :: string where
  "WrongArgumentTypeFormat = ''Expect argument to be %s. got: %s''"
definition InternalError :: string where "InternalError = ''InternalError''"
definition InvalidGobyCode :: string where "InvalidGobyCode = ''Invalid Goby code''"
definition StringClass :: string where "StringClass = ''String''"

definition initErrorObject :: "string \<Rightarrow> int \<Rightarrow> string \<Rightarrow> fmt_arg list \<Rightarrow> Object" where
  "initErrorObject errorType sourceLine format args =
     Error errorType sourceLine (Sprintf format args)"

definition initUnsupportedMethodError :: "int \<Rightarrow> string \<Rightarrow> RClass \<Rightarrow> Object" where
  "initUnsupportedMethodError sourceLine methodName receiver =
     initErrorObject UnsupportedMethodError sourceLine ''Unsupported Method %s for %s''
       [ArgString methodName, ArgString (toString_RClass receiver)]"

section \<open>Ripper.new\<close>

definition Ripper_new :: "RClass \<Rightarrow> int \<Rightarrow> Object list \<Rightarrow> Object" where
  "Ripper_new receiver sourceLine args =
     initUnsupportedMethodError sourceLine ''#new'' receiver"

section \<open>Tokens and the token-kind names\<close>

text \<open>
  Package \<^verbatim>\<open>compiler/token\<close> is not under src/. In Go, \<^verbatim>\<open>token.Type\<close> is a string
  type and a token kind is one of the package's constants. The constants that
  \<^verbatim>\<open>convertLex\<close> names in its switch are constructors here (their spelling is not in
  the sources); every other kind is \<open>token_Other s\<close>, where \<open>s\<close> is the constant's
  string, which the default branch of \<^verbatim>\<open>convertLex\<close> lower-cases.
\<close>

datatype TokenType =
    token_Asterisk
  | token_And
  | token_Assign
  | token_Bang
  | token_Bar
  | token_Colon
  | token_Comma
  | token_COMP
  | token_Dot
  | token_Eq
  | token_GT
  | token_GTE
  | token_LBrace
  | token_LBracket
  | token_LParen
  | token_LT
  | token_LTE
  | token_Match
  | token_Minus
  | token_MinusEq
  | token_Modulo
  | token_NotEq
  | token_Or
  | token_OrEq
  | token_Plus
  | token_PlusEq
  | token_Pow
  | token_Range
  | token_RBrace
  | token_RBracket
  | token_ResolutionOperator
  | token_RParen
  | token_Semicolon
  | token_Slash
  | token_Other string

text \<open>
  Modelled from the spec: the strings of the kinds outside the switch. The expected
  output of \<^verbatim>\<open>TestRipperLex\<close> prints them lower-cased (on_eof, on_class, on_constant,
  on_end, on_ident, on_int, on_def, on_self, on_do, on_yield, on_module, on_get_block).
\<close>

definition token_EOF :: TokenType where "token_EOF = token_Other ''EOF''"
definition token_Illegal :: TokenType where "token_Illegal = token_Other ''ILLEGAL''"
definition token_Constant :: TokenType where "token_Constant = token_Other ''CONSTANT''"
definition token_Ident :: TokenType where "token_Ident = token_Other ''IDENT''"
definition token_Int :: TokenType where "token_Int = token_Other ''INT''"
definition token_Class :: TokenType where "token_Class = token_Other ''CLASS''"
definition token_End :: TokenType where "token_End = token_Other ''END''"

record Token =
  Type :: TokenType
  Literal :: string
  Line :: int

text \<open>\<^verbatim>\<open>strings.ToLower\<close> on the ASCII letters (token kinds are ASCII).\<close>

definition toLower_char :: "char \<Rightarrow> char" where
  "toLower_char c =
     (case map_of (zip ''ABCDEFGHIJKLMNOPQRSTUVWXYZ'' ''abcdefghijklmnopqrstuvwxyz'') c of
        Some d \<Rightarrow> d
      | None \<Rightarrow> c)"

definition ToLower :: "string \<Rightarrow> string" where
  "ToLower s = map toLower_char s"

text \<open>The switch of \<^verbatim>\<open>convertLex\<close>: the value of its variable \<^verbatim>\<open>s\<close>.\<close>

fun convertLex_s :: "TokenType \<Rightarrow> string" where
  "convertLex_s token_Asterisk = ''asterisk''"
| "convertLex_s token_And = ''and''"
| "convertLex_s token_Assign = ''assign''"
| "convertLex_s token_Bang = ''bang''"
| "convertLex_s token_Bar = ''bar''"
| "convertLex_s token_Colon = ''colon''"
| "convertLex_s token_Comma = ''comma''"
| "convertLex_s token_COMP = ''comp''"
| "convertLex_s token_Dot = ''dot''"
| "convertLex_s token_Eq = ''eq''"
| "convertLex_s token_GT = ''gt''"
| "convertLex_s token_GTE = ''gte''"
| "convertLex_s token_LBrace = ''lbrace''"
| "convertLex_s token_LBracket = ''lbracket''"
| "convertLex_s token_LParen = ''lparen''"
| "convertLex_s token_LT = ''lt''"
| "convertLex_s token_LTE = ''lte''"
| "convertLex_s token_Match = ''match''"
| "convertLex_s token_Minus = ''minus''"
| "convertLex_s token_MinusEq = ''minuseq''"
| "convertLex_s token_Modulo = ''modulo''"
| "convertLex_s token_NotEq = ''noteq''"
| "convertLex_s token_Or = ''or''"
| "convertLex_s token_OrEq = ''oreq''"
| "convertLex_s token_Plus = ''plus''"
| "convertLex_s token_PlusEq = ''pluseq''"
| "convertLex_s token_Pow = ''pow''"
| "convertLex_s token_Range = ''range''"
| "convertLex_s token_RBrace = ''rbrace''"
| "convertLex_s token_RBracket = ''rbracket''"
| "convertLex_s token_ResolutionOperator = ''resolutionoperator''"
| "convertLex_s token_RParen = ''rparen''"
| "convertLex_s token_Semicolon = ''semicolon''"
| "convertLex_s token_Slash = ''slash''"
| "convertLex_s (token_Other t) = ToLower t"

definition convertLex :: "TokenType \<Rightarrow> string" where
  "convertLex t = ''on_'' @ convertLex_s t"

section \<open>The instruction sets that the compiler returns\<close>

text \<open>
  Package \<^verbatim>\<open>compiler/bytecode\<close> is not under src/: the records hold what
  \<^verbatim>\<open>convertToTuple\<close> and \<^verbatim>\<open>getArgNameType\<close> read. A nil pointer is \<open>None\<close>.
  \<open>AnchorLine\<close> is the pair that the method of that name returns: the line, and the
  second result that \<^verbatim>\<open>convertToTuple\<close> discards (whether the instruction has an
  anchor).
\<close>

record ArgSet =
  Names :: "string list"
  Types :: "int list"

record Instruction =
  Action :: string
  InsLine :: int
  SourceLine :: int
  AnchorLine :: "int \<times> bool"
  Params :: "string list"
  ArgSet :: "ArgSet option"

record InstructionSet =
  Name :: string
  isType :: string
  ArgTypes :: "ArgSet option"
  Instructions :: "Instruction list"


section \<open>Helper functions of the Ripper library\<close>

text \<open>\<^verbatim>\<open>getArgNameType\<close>: each loop appends the converted element, in order.\<close>

definition getArgNameType :: "ArgSet \<Rightarrow> Object" where
  "getArgNameType argSet =
     (let h = [];
          aName = map StringObject (Names argSet);
          h = AList.update ''names'' (ArrayObject aName) h;
          aType = map IntegerObject (Types argSet);
          h = AList.update ''types'' (ArrayObject aType) h
      in HashObject h)"

text \<open>The map \<^verbatim>\<open>hInst\<close> that the inner loop of \<^verbatim>\<open>convertToTuple\<close> fills for one
  instruction.\<close>

definition hInst_of :: "Instruction \<Rightarrow> (string \<times> Object) list" where
  "hInst_of ins =
     (let hInst = [];
          hInst = AList.update ''action'' (StringObject (Action ins)) hInst;
          hInst = AList.update ''line'' (IntegerObject (InsLine ins)) hInst;
          hInst = AList.update ''source_line'' (IntegerObject (SourceLine ins)) hInst;
          hInst = AList.update ''anchor'' (IntegerObject (fst (AnchorLine ins))) hInst;
          aParams = map StringObject (Params ins);
          hInst = AList.update ''params'' (ArrayObject aParams) hInst
      in hInst)"

text \<open>
  The inner loop over \<^verbatim>\<open>insts.Instructions\<close>. Its state is the outer map
  \<^verbatim>\<open>hInsts\<close>, which the loop updates under the key arg_set, and the array
  \<^verbatim>\<open>aInst\<close>.
\<close>

fun instructions_loop ::
  "Instruction list \<Rightarrow> (string \<times> Object) list \<Rightarrow> Object list
     \<Rightarrow> (string \<times> Object) list \<times> Object list" where
  "instructions_loop [] hInsts aInst = (hInsts, aInst)"
| "instructions_loop (ins # rest) hInsts aInst =
     (let hInst = hInst_of ins;
          hInsts = (case ArgSet ins of
                      Some argSet \<Rightarrow> AList.update ''arg_set'' (getArgNameType argSet) hInsts
                    | None \<Rightarrow> hInsts)
      in instructions_loop rest hInsts (aInst @ [HashObject hInst]))"

text \<open>
  The body of the outer loop of \<^verbatim>\<open>convertToTuple\<close> for one instruction set: the
  final contents of its map \<^verbatim>\<open>hInsts\<close>.
\<close>

definition hInsts_of :: "InstructionSet \<Rightarrow> (string \<times> Object) list" where
  "hInsts_of insts =
     (let hInsts = [];
          hInsts = AList.update ''name'' (StringObject (Name insts)) hInsts;
          hInsts = AList.update ''type'' (StringObject (isType insts)) hInsts;
          hInsts = (case ArgTypes insts of
                      Some argTypes \<Rightarrow> AList.update ''arg_types'' (getArgNameType argTypes) hInsts
                    | None \<Rightarrow> hInsts);
          (hInsts, aInst) = instructions_loop (Instructions insts) hInsts [];
          hInsts = AList.update ''instructions'' (ArrayObject aInst) hInsts
      in hInsts)"

text \<open>
  The outer loop. The source appends a hash object for \<^verbatim>\<open>hInsts\<close> to \<^verbatim>\<open>ary\<close>
  twice: once before the inner loop and once after the key instructions is set. A Go
  map is a reference, and \<^verbatim>\<open>initHashObject\<close> (not under src/) is taken to keep the
  map it is given, as \<^verbatim>\<open>initGoMap\<close> keeps its argument in the GoMap file; so when
  the function returns, both entries show the final contents of \<^verbatim>\<open>hInsts\<close>.
\<close>

fun convertToTuple_loop :: "InstructionSet list \<Rightarrow> Object list \<Rightarrow> Object list" where
  "convertToTuple_loop [] ary = ary"
| "convertToTuple_loop (insts # rest) ary =
     (let hInsts = hInsts_of insts
      in convertToTuple_loop rest (ary @ [HashObject hInsts, HashObject hInsts]))"

definition convertToTuple :: "InstructionSet list \<Rightarrow> Object" where
  "convertToTuple instSet = ArrayObject (convertToTuple_loop instSet [])"

section \<open>The class methods instruction, lex, parse and token\<close>

text \<open>
  The lexer, the parser with its printer, and the compiler are packages that are not
  under src/. The methods take them as parameters: \<open>New\<close> is \<^verbatim>\<open>lexer.New\<close>,
  \<open>NextToken\<close> returns the token and the lexer's next state, \<open>ParseProgram\<close> is
  \<^verbatim>\<open>parser.New(l).ParseProgram()\<close> returning the program and the error (\<open>None\<close> is
  nil), \<open>String\<close> is \<^verbatim>\<open>program.String()\<close>, and \<open>CompileToInstructions\<close> is
  \<^verbatim>\<open>compiler.CompileToInstructions\<close> in normal mode. A method whose loop runs until
  the lexer returns the end-of-file token returns \<open>None\<close> when that never happens.
\<close>

definition Ripper_instruction ::
  "(string \<Rightarrow> InstructionSet list \<times> 'e option) \<Rightarrow> RClass \<Rightarrow> int \<Rightarrow> Object list \<Rightarrow> Object" where
  "Ripper_instruction CompileToInstructions receiver sourceLine args =
     (if length args \<noteq> 1 then
        initErrorObject ArgumentError sourceLine ''Expect 1 argument. got=%d''
          [ArgInt (int (length args))]
      else
        let arg = args ! 0 in
        case arg of
          StringObject s \<Rightarrow>
            (case CompileToInstructions s of
               (i, err) \<Rightarrow>
                 if err \<noteq> None then
                   initErrorObject TypeError sourceLine InternalError
                     [ArgString StringClass, ArgString InvalidGobyCode]
                 else convertToTuple i)
        | _ \<Rightarrow>
            initErrorObject TypeError sourceLine WrongArgumentTypeFormat
              [ArgString StringClass, ArgString (className arg)])"

text \<open>The three objects that one round of the loop of \<^verbatim>\<open>lex\<close> appends as one array.\<close>

definition lex_entry :: "Token \<Rightarrow> Object" where
  "lex_entry nt =
     ArrayObject [IntegerObject (Line nt), StringObject (convertLex (Type nt)),
                  StringObject (Literal nt)]"

partial_function (option) lex_loop ::
  "('l \<Rightarrow> Token \<times> 'l) \<Rightarrow> 'l \<Rightarrow> Object list \<Rightarrow> Object list option" where
  "lex_loop NextToken l elements =
     (case NextToken l of
        (nt, l') \<Rightarrow>
          (let elements' = elements @ [lex_entry nt]
           in if Type nt = token_EOF then Some elements'
              else lex_loop NextToken l' elements'))"

declare lex_loop.simps [code]

definition Ripper_lex ::
  "(string \<Rightarrow> 'l) \<Rightarrow> ('l \<Rightarrow> Token \<times> 'l) \<Rightarrow> RClass \<Rightarrow> int \<Rightarrow> Object list \<Rightarrow> Object option" where
  "Ripper_lex New NextToken receiver sourceLine args =
     (if length args \<noteq> 1 then
        Some (initErrorObject ArgumentError sourceLine ''Expect 1 argument. got=%d''
          [ArgInt (int (length args))])
      else
        let arg = args ! 0 in
        case arg of
          StringObject s \<Rightarrow> map_option ArrayObject (lex_loop NextToken (New s) [])
        | _ \<Rightarrow>
            Some (initErrorObject TypeError sourceLine WrongArgumentTypeFormat
              [ArgString StringClass, ArgString (className arg)]))"

definition Ripper_parse ::
  "(string \<Rightarrow> 'l) \<Rightarrow> ('l \<Rightarrow> 'p \<times> 'e option) \<Rightarrow> ('p \<Rightarrow> string)
     \<Rightarrow> RClass \<Rightarrow> int \<Rightarrow> Object list \<Rightarrow> Object" where
  "Ripper_parse New ParseProgram String receiver sourceLine args =
     (if length args \<noteq> 1 then
        initErrorObject ArgumentError sourceLine ''Expect 1 argument. got=%d''
          [ArgInt (int (length args))]
      else
        let arg = args ! 0 in
        case arg of
          StringObject s \<Rightarrow>
            (case ParseProgram (New s) of
               (program, err) \<Rightarrow>
                 if err \<noteq> None then
                   initErrorObject TypeError sourceLine InternalError
                     [ArgString StringClass, ArgString InvalidGobyCode]
                 else StringObject (String program))
        | _ \<Rightarrow>
            initErrorObject TypeError sourceLine WrongArgumentTypeFormat
              [ArgString StringClass, ArgString (className arg)])"

partial_function (option) token_loop ::
  "('l \<Rightarrow> Token \<times> 'l) \<Rightarrow> 'l \<Rightarrow> Object list \<Rightarrow> Object list option" where
  "token_loop NextToken l el =
     (case NextToken l of
        (nt, l') \<Rightarrow>
          if Type nt = token_EOF then Some (el @ [StringObject ''EOF''])
          else token_loop NextToken l' (el @ [StringObject (Literal nt)]))"

declare token_loop.simps [code]

definition Ripper_token ::
  "(string \<Rightarrow> 'l) \<Rightarrow> ('l \<Rightarrow> Token \<times> 'l) \<Rightarrow> RClass \<Rightarrow> int \<Rightarrow> Object list \<Rightarrow> Object option" where
  "Ripper_token New NextToken receiver sourceLine args =
     (if length args \<noteq> 1 then
        Some (initErrorObject ArgumentError sourceLine ''Expect 1 argument. got=%d''
          [ArgInt (int (length args))])
      else
        let arg = args ! 0 in
        case arg of
          StringObject s \<Rightarrow> map_option ArrayObject (token_loop NextToken (New s) [])
        | _ \<Rightarrow>
            Some (initErrorObject TypeError sourceLine WrongArgumentTypeFormat
              [ArgString StringClass, ArgString (className arg)]))"

text \<open>
  Modelled from the spec: package \<^verbatim>\<open>compiler\<close> is not under src/. The spec says that
  compilation returns the instruction sets or a typed failure if parsing fails, that it
  can fail only by propagating a parse failure, and that the compiler has no error
  class of its own. So \<^verbatim>\<open>CompileToInstructions\<close> runs the parser on a new lexer for
  the source and returns the parser's error when there is one, and otherwise the
  instruction sets that the generator (a parameter) makes of the program.
\<close>

definition CompileToInstructions ::
  "(string \<Rightarrow> 'l) \<Rightarrow> ('l \<Rightarrow> 'p \<times> 'e option) \<Rightarrow> ('p \<Rightarrow> InstructionSet list)
     \<Rightarrow> string \<Rightarrow> InstructionSet list \<times> 'e option" where
  "CompileToInstructions New ParseProgram GenerateInstructions file =
     (case ParseProgram (New file) of
        (program, err) \<Rightarrow>
          if err \<noteq> None then ([], err)
          else (GenerateInstructions program, None))"

section \<open>GoMap\<close>

text \<open>
  The data of a GoMap is a Go \<^verbatim>\<open>map[string]interface{}\<close>. A stored value is either
  a guest-language object (as \<^verbatim>\<open>set\<close> stores it) or another Go value (as
  \<^verbatim>\<open>new\<close> stores it from a hash); \<^verbatim>\<open>result.(Object)\<close> tells them apart.
  \<^verbatim>\<open>InitObjectFromGoType\<close> is not under src/ and is a parameter.
\<close>

datatype 'g GoValue = GoObject Object | GoRaw 'g

record 'g GoMap =
  data :: "string \<rightharpoonup> 'g GoValue"

definition GoMap_get ::
  "('g \<Rightarrow> Object) \<Rightarrow> 'g GoMap \<Rightarrow> int \<Rightarrow> Object list \<Rightarrow> Object" where
  "GoMap_get InitObjectFromGoType receiver sourceLine args =
     (if length args \<noteq> 1 then
        initErrorObject ArgumentError sourceLine ''Expect 1 argument. got: %d''
          [ArgInt (int (length args))]
      else
        let arg = args ! 0 in
        case arg of
          StringObject key \<Rightarrow>
            (let m = data receiver in
             case m key of
               None \<Rightarrow> NullObject
             | Some result \<Rightarrow>
                 (case result of
                    GoObject obj \<Rightarrow> obj
                  | GoRaw g \<Rightarrow> InitObjectFromGoType g))
        | _ \<Rightarrow>
            initErrorObject TypeError sourceLine WrongArgumentTypeFormat
              [ArgString StringClass, ArgString (className arg)])"

section \<open>The lexer\<close>

text \<open>
  Modelled from the spec: package \<^verbatim>\<open>compiler/lexer\<close> is not under src/. The spec
  describes it: \<^verbatim>\<open>nextToken\<close> is called repeatedly and keeps returning the
  end-of-file token at the end of the input; the input is read in a single pass with a
  bounded lookahead for the operators of several characters; whitespace and comments
  are skipped and never emitted; an unrecognized character still produces a token of
  an illegal kind carrying that character; the line count increments on each newline
  consumed, also inside the skipped regions. The token kinds are the keywords, the
  operators and punctuation, the literal classes (integer, float, string, identifier,
  constant name) and the end of file. The keywords are those that the spec and
  \<^verbatim>\<open>ripper_test.go\<close> name; the operators are those of \<^verbatim>\<open>convertLex\<close>; a comment
  runs from \<^verbatim>\<open>#\<close> to the end of its line. The state is the input still to read and
  the line count.

  Line numbers follow the code's documentation and tests, not the spec's sentence on
  1-based lines: the documentation of \<^verbatim>\<open>Ripper.lex\<close> in \<^verbatim>\<open>ripper.go\<close> numbers the
  tokens of a one-line input 0, the end-of-file token included, and
  \<^verbatim>\<open>TestRipperLex\<close> numbers the tokens of the second line of its input 1. A token
  carries the count of newlines consumed before it, starting at 0.
\<close>

definition token_Float :: TokenType where "token_Float = token_Other ''FLOAT''"
definition token_String :: TokenType where "token_String = token_Other ''STRING''"

record Lexer =
  input :: string
  line :: int

definition New :: "string \<Rightarrow> Lexer" where
  "New s = \<lparr>input = s, line = 0\<rparr>"

definition isLetter :: "char \<Rightarrow> bool" where
  "isLetter c = (c \<in> set ''abcdefghijklmnopqrstuvwxyzABCDEFGHIJKLMNOPQRSTUVWXYZ_'')"

definition isUpper :: "char \<Rightarrow> bool" where
  "isUpper c = (c \<in> set ''ABCDEFGHIJKLMNOPQRSTUVWXYZ'')"

definition isDigit :: "char \<Rightarrow> bool" where
  "isDigit c = (c \<in> set ''0123456789'')"

definition isIdentChar :: "char \<Rightarrow> bool" where
  "isIdentChar c = (isLetter c \<or> isDigit c)"

definition newline :: char where "newline = CHR 0x0A"

definition isSpace :: "char \<Rightarrow> bool" where
  "isSpace c = (c = CHR '' '' \<or> c = CHR 0x09 \<or> c = CHR 0x0D)"

text \<open>Skips whitespace and comments and counts the newlines; the flag tells whether
  the position is inside a comment.\<close>

fun skipWhitespace :: "bool \<Rightarrow> string \<Rightarrow> int \<Rightarrow> string \<times> int" where
  "skipWhitespace inComment [] n = ([], n)"
| "skipWhitespace inComment (c # cs) n =
     (if c = newline then skipWhitespace False cs (n + 1)
      else if inComment then skipWhitespace True cs n
      else if c = CHR ''#'' then skipWhitespace True cs n
      else if isSpace c then skipWhitespace False cs n
      else (c # cs, n))"

definition keywordTable :: "(string \<times> TokenType) list" where
  "keywordTable =
     [(''class'', token_Class), (''module'', token_Other ''MODULE''),
      (''def'', token_Other ''DEF''), (''self'', token_Other ''SELF''),
      (''do'', token_Other ''DO''), (''end'', token_End),
      (''yield'', token_Other ''YIELD''), (''get_block'', token_Other ''GET_BLOCK'')]"

definition lookupIdent :: "string \<Rightarrow> TokenType" where
  "lookupIdent lit =
     (case map_of keywordTable lit of
        Some t \<Rightarrow> t
      | None \<Rightarrow> if isUpper (hd lit) then token_Constant else token_Ident)"

text \<open>The operators, those of several characters first.\<close>

definition operators :: "(string \<times> TokenType) list" where
  "operators =
     [(''<=>'', token_COMP), (''||='', token_OrEq),
      (''**'', token_Pow), (''=='', token_Eq), (''!='', token_NotEq), (''<='', token_LTE),
      (''>='', token_GTE), (''=~'', token_Match), (''+='', token_PlusEq),
      (''-='', token_MinusEq), (''&&'', token_And), (''||'', token_Or),
      (''::'', token_ResolutionOperator), (''..'', token_Range),
      (''='', token_Assign), (''+'', token_Plus), (''-'', token_Minus), (''!'', token_Bang),
      (''*'', token_Asterisk), (''/'', token_Slash), (''%'', token_Modulo), (''<'', token_LT),
      (''>'', token_GT), ('','', token_Comma), ('';'', token_Semicolon), ('':'', token_Colon),
      (''|'', token_Bar), (''.'', token_Dot), (''('', token_LParen), ('')'', token_RParen),
      (''{'', token_LBrace), (''}'', token_RBrace), (''['', token_LBracket),
      ('']'', token_RBracket)]"

text \<open>The kind and the literal of the token that starts with the character \<open>c\<close>
  followed by \<open>cs\<close>, and the input left after the token.\<close>

definition readToken :: "char \<Rightarrow> string \<Rightarrow> TokenType \<times> string \<times> string" where
  "readToken c cs =
     (if isLetter c then
        (let lit = c # takeWhile isIdentChar cs
         in (lookupIdent lit, lit, dropWhile isIdentChar cs))
      else if isDigit c then
        (let ds = takeWhile isDigit cs; rest = dropWhile isDigit cs
         in case rest of
              d # e # rest' \<Rightarrow>
                if d = CHR ''.'' \<and> isDigit e
                then (token_Float, c # ds @ d # e # takeWhile isDigit rest',
                      dropWhile isDigit rest')
                else (token_Int, c # ds, rest)
            | _ \<Rightarrow> (token_Int, c # ds, rest))
      else if c = CHR 0x22 \<or> c = CHR 0x27 then
        (token_String, takeWhile (\<lambda>d. d \<noteq> c) cs, drop 1 (dropWhile (\<lambda>d. d \<noteq> c) cs))
      else
        (case find (\<lambda>(lit, t). take (length lit) (c # cs) = lit) operators of
           Some (lit, t) \<Rightarrow> (t, lit, drop (length lit) (c # cs))
         | None \<Rightarrow> (token_Illegal, [c], cs)))"

definition NextToken :: "Lexer \<Rightarrow> Token \<times> Lexer" where
  "NextToken l =
     (case skipWhitespace False (input l) (line l) of
        (rest, n) \<Rightarrow>
          (case rest of
             [] \<Rightarrow> (\<lparr>Type = token_EOF, Literal = [], Line = n\<rparr>, \<lparr>input = [], line = n\<rparr>)
           | c # cs \<Rightarrow>
               (case readToken c cs of
                  (t, lit, rest') \<Rightarrow>
                    (\<lparr>Type = t, Literal = lit, Line = n\<rparr>,
                     \<lparr>input = rest',
                      line = n + int (length (filter (\<lambda>d. d = newline) lit))\<rparr>))))"

section \<open>Facts about the formatted messages\<close>

lemma Sprintf_unsupported:
  "Sprintf ''Unsupported Method %s for %s'' [ArgString m, ArgString r] =
     ''Unsupported Method '' @ m @ '' for '' @ r"
  by simp

lemma Sprintf_arity:
  "Sprintf ''Expect 1 argument. got=%d'' [ArgInt k] = ''Expect 1 argument. got='' @ itoa k"
  by simp

lemma Sprintf_arity_GoMap:
  "Sprintf ''Expect 1 argument. got: %d'' [ArgInt k] = ''Expect 1 argument. got: '' @ itoa k"
  by simp

lemma Sprintf_wrong_type:
  "Sprintf WrongArgumentTypeFormat [ArgString a, ArgString b] =
     ''Expect argument to be '' @ a @ ''. got: '' @ b"
  by (simp add: WrongArgumentTypeFormat_def)

lemma Sprintf_internal:
  "Sprintf InternalError [ArgString StringClass, ArgString InvalidGobyCode] =
     ''InternalError%!(EXTRA string=String, string=Invalid Goby code)''"
  by (simp add: InternalError_def StringClass_def InvalidGobyCode_def)

lemma itoa_0: "itoa 0 = ''0''"
  by (simp add: itoa_def digits.simps)

text \<open>
  Claim C8. Ripper.new, called with any arguments, returns the error object of the class
  UnsupportedMethodError for the method #new and the receiver; it never succeeds and
  the error class is neither ArgumentError nor TypeError.
\<close>

theorem Ripper_new_unsupported:
  "Ripper_new receiver sourceLine args =
     Error UnsupportedMethodError sourceLine
       (''Unsupported Method #new for '' @ toString_RClass receiver)
   \<and> isError (Ripper_new receiver sourceLine args)
   \<and> className (Ripper_new receiver sourceLine args) \<noteq> ArgumentError
   \<and> className (Ripper_new receiver sourceLine args) \<noteq> TypeError"
  by (simp add: Ripper_new_def initUnsupportedMethodError_def initErrorObject_def
      UnsupportedMethodError_def ArgumentError_def TypeError_def)

text \<open>
  Witness for C8: the call of \<^verbatim>\<open>TestRipperClassCreationFail\<close>, and a call with two
  arguments.
\<close>

theorem Ripper_new_unsupported_witness:
  "Ripper_new (RClass ''Ripper'') 1 [] =
     Error ''UnsupportedMethodError'' 1 ''Unsupported Method #new for Ripper''
   \<and> Ripper_new (RClass ''Ripper'') 1 [StringObject ''a'', IntegerObject 2] =
     Error ''UnsupportedMethodError'' 1 ''Unsupported Method #new for Ripper''"
  using Ripper_new_unsupported [of "RClass ''Ripper''" 1 "[]"]
    Ripper_new_unsupported [of "RClass ''Ripper''" 1 "[StringObject ''a'', IntegerObject 2]"]
  by (simp add: UnsupportedMethodError_def)


lemma initErrorObject_arity:
  "initErrorObject ArgumentError n ''Expect 1 argument. got=%d'' [ArgInt k] =
     Error ArgumentError n (''Expect 1 argument. got='' @ itoa k)"
  by (simp add: initErrorObject_def)

lemma initErrorObject_wrong_type:
  "initErrorObject TypeError n WrongArgumentTypeFormat [ArgString StringClass, ArgString c] =
     Error TypeError n (''Expect argument to be String. got: '' @ c)"
  by (simp add: initErrorObject_def Sprintf_wrong_type StringClass_def)

lemma initErrorObject_invalid_code:
  "initErrorObject TypeError n InternalError [ArgString StringClass, ArgString InvalidGobyCode] =
     Error TypeError n ''InternalError%!(EXTRA string=String, string=Invalid Goby code)''"
  by (simp only: initErrorObject_def Sprintf_internal)

lemma instruction_arity:
  "length args \<noteq> 1 \<Longrightarrow>
   Ripper_instruction C r n args =
     Error ArgumentError n (''Expect 1 argument. got='' @ itoa (int (length args)))"
  by (simp add: Ripper_instruction_def initErrorObject_arity)

lemma lex_arity:
  "length args \<noteq> 1 \<Longrightarrow>
   Ripper_lex lexNew lexNext r n args =
     Some (Error ArgumentError n (''Expect 1 argument. got='' @ itoa (int (length args))))"
  by (simp add: Ripper_lex_def initErrorObject_arity)

lemma parse_arity:
  "length args \<noteq> 1 \<Longrightarrow>
   Ripper_parse lexNew P Str r n args =
     Error ArgumentError n (''Expect 1 argument. got='' @ itoa (int (length args)))"
  by (simp add: Ripper_parse_def initErrorObject_arity)

lemma token_arity:
  "length args \<noteq> 1 \<Longrightarrow>
   Ripper_token lexNew lexNext r n args =
     Some (Error ArgumentError n (''Expect 1 argument. got='' @ itoa (int (length args))))"
  by (simp add: Ripper_token_def initErrorObject_arity)

lemma instruction_wrong_type:
  "\<forall>s. arg \<noteq> StringObject s \<Longrightarrow>
   Ripper_instruction C r n [arg] =
     Error TypeError n (''Expect argument to be String. got: '' @ className arg)"
  by (cases arg) (simp_all add: Ripper_instruction_def initErrorObject_wrong_type)

lemma lex_wrong_type:
  "\<forall>s. arg \<noteq> StringObject s \<Longrightarrow>
   Ripper_lex lexNew lexNext r n [arg] =
     Some (Error TypeError n (''Expect argument to be String. got: '' @ className arg))"
  by (cases arg) (simp_all add: Ripper_lex_def initErrorObject_wrong_type)

lemma parse_wrong_type:
  "\<forall>s. arg \<noteq> StringObject s \<Longrightarrow>
   Ripper_parse lexNew P Str r n [arg] =
     Error TypeError n (''Expect argument to be String. got: '' @ className arg)"
  by (cases arg) (simp_all add: Ripper_parse_def initErrorObject_wrong_type)

lemma token_wrong_type:
  "\<forall>s. arg \<noteq> StringObject s \<Longrightarrow>
   Ripper_token lexNew lexNext r n [arg] =
     Some (Error TypeError n (''Expect argument to be String. got: '' @ className arg))"
  by (cases arg) (simp_all add: Ripper_token_def initErrorObject_wrong_type)

text \<open>
  Claim C1. Each of instruction, lex, parse and token, called with a number of arguments
  other than one, returns the ArgumentError object with the message
  \<^verbatim>\<open>Expect 1 argument. got=N\<close>; called with one argument that is not a string, it
  returns the TypeError object whose message names the expected class String and the
  class of the argument.
\<close>

theorem Ripper_argument_validation:
  "(length args \<noteq> 1 \<longrightarrow>
      Ripper_instruction C r n args =
        Error ArgumentError n (''Expect 1 argument. got='' @ itoa (int (length args)))
    \<and> Ripper_lex lexNew lexNext r n args =
        Some (Error ArgumentError n (''Expect 1 argument. got='' @ itoa (int (length args))))
    \<and> Ripper_parse lexNew' P Str r n args =
        Error ArgumentError n (''Expect 1 argument. got='' @ itoa (int (length args)))
    \<and> Ripper_token lexNew lexNext r n args =
        Some (Error ArgumentError n (''Expect 1 argument. got='' @ itoa (int (length args)))))
   \<and> ((\<forall>s. arg \<noteq> StringObject s) \<longrightarrow>
      Ripper_instruction C r n [arg] =
        Error TypeError n (''Expect argument to be String. got: '' @ className arg)
    \<and> Ripper_lex lexNew lexNext r n [arg] =
        Some (Error TypeError n (''Expect argument to be String. got: '' @ className arg))
    \<and> Ripper_parse lexNew' P Str r n [arg] =
        Error TypeError n (''Expect argument to be String. got: '' @ className arg)
    \<and> Ripper_token lexNew lexNext r n [arg] =
        Some (Error TypeError n (''Expect argument to be String. got: '' @ className arg)))"
  by (intro conjI impI)
    (simp_all add: instruction_arity lex_arity parse_arity token_arity
      instruction_wrong_type lex_wrong_type parse_wrong_type token_wrong_type)


text \<open>
  Witness for C1: no argument, and the integer 1 as the argument, as in
  \<^verbatim>\<open>TestRipperParseFail\<close>, \<^verbatim>\<open>TestRipperTokenFail\<close> and \<^verbatim>\<open>TestRipperLexFail\<close>.
\<close>

theorem Ripper_argument_validation_witness:
  "length ([] :: Object list) \<noteq> 1
   \<and> (\<forall>s. IntegerObject 1 \<noteq> StringObject s)
   \<and> Ripper_instruction (\<lambda>s. ([], None :: unit option)) (RClass ''Ripper'') 1 [] =
        Error ''ArgumentError'' 1 ''Expect 1 argument. got=0''
   \<and> Ripper_lex (\<lambda>s. s) (\<lambda>l. (\<lparr>Type = token_EOF, Literal = [], Line = 0\<rparr>, l))
        (RClass ''Ripper'') 1 [] =
        Some (Error ''ArgumentError'' 1 ''Expect 1 argument. got=0'')
   \<and> Ripper_parse (\<lambda>s. s) (\<lambda>l. ((), None :: unit option)) (\<lambda>p. []) (RClass ''Ripper'') 1 [] =
        Error ''ArgumentError'' 1 ''Expect 1 argument. got=0''
   \<and> Ripper_token (\<lambda>s. s) (\<lambda>l. (\<lparr>Type = token_EOF, Literal = [], Line = 0\<rparr>, l))
        (RClass ''Ripper'') 1 [] =
        Some (Error ''ArgumentError'' 1 ''Expect 1 argument. got=0'')
   \<and> Ripper_instruction (\<lambda>s. ([], None :: unit option)) (RClass ''Ripper'') 1
        [IntegerObject 1] =
        Error ''TypeError'' 1 ''Expect argument to be String. got: Integer''
   \<and> Ripper_lex (\<lambda>s. s) (\<lambda>l. (\<lparr>Type = token_EOF, Literal = [], Line = 0\<rparr>, l))
        (RClass ''Ripper'') 1 [IntegerObject 1] =
        Some (Error ''TypeError'' 1 ''Expect argument to be String. got: Integer'')
   \<and> Ripper_parse (\<lambda>s. s) (\<lambda>l. ((), None :: unit option)) (\<lambda>p. []) (RClass ''Ripper'') 1
        [IntegerObject 1] =
        Error ''TypeError'' 1 ''Expect argument to be String. got: Integer''
   \<and> Ripper_token (\<lambda>s. s) (\<lambda>l. (\<lparr>Type = token_EOF, Literal = [], Line = 0\<rparr>, l))
        (RClass ''Ripper'') 1 [IntegerObject 1] =
        Some (Error ''TypeError'' 1 ''Expect argument to be String. got: Integer'')"
  using Ripper_argument_validation
    [of "[]" "\<lambda>s. ([], None :: unit option)" "RClass ''Ripper''" 1 "\<lambda>s. s"
        "\<lambda>l. (\<lparr>Type = token_EOF, Literal = [], Line = 0\<rparr>, l)"
        "\<lambda>s. s" "\<lambda>l. ((), None :: unit option)" "\<lambda>p. []" "IntegerObject 1"]
  by (simp add: itoa_0 ArgumentError_def TypeError_def)

text \<open>
  The cases of \<^verbatim>\<open>TestRipperParseFail\<close> with a float, an array and a hash as the
  argument (the tests of lex and token expect the same messages).
\<close>

lemma TestRipperParseFail_cases:
  "Ripper_parse lexNew P Str (RClass ''Ripper'') 1 [FloatObject 1.2] =
     Error ''TypeError'' 1 ''Expect argument to be String. got: Float''
   \<and> Ripper_parse lexNew P Str (RClass ''Ripper'') 1
       [ArrayObject [StringObject ''puts'', StringObject ''123'']] =
     Error ''TypeError'' 1 ''Expect argument to be String. got: Array''
   \<and> Ripper_parse lexNew P Str (RClass ''Ripper'') 1
       [HashObject [(''key'', IntegerObject 1)]] =
     Error ''TypeError'' 1 ''Expect argument to be String. got: Hash''"
  by (simp add: parse_wrong_type TypeError_def)

text \<open>
  Claim C4. For a string argument S, Ripper.parse returns the string object of
  \<^verbatim>\<open>program.String()\<close> when the parser reports no error, and otherwise the TypeError
  object with the fixed message of invalid code, which holds nothing of the program; it
  returns an error object if and only if the parser reports an error.
\<close>

theorem Ripper_parse_result:
  "Ripper_parse lexNew ParseProgram String r n [StringObject S] =
     (if snd (ParseProgram (lexNew S)) = None
      then StringObject (String (fst (ParseProgram (lexNew S))))
      else Error TypeError n ''InternalError%!(EXTRA string=String, string=Invalid Goby code)'')
   \<and> (isError (Ripper_parse lexNew ParseProgram String r n [StringObject S]) =
        (snd (ParseProgram (lexNew S)) \<noteq> None))"
  by (cases "ParseProgram (lexNew S)")
    (simp add: Ripper_parse_def initErrorObject_invalid_code)

text \<open>
  Witness for C4: a parser that accepts only the text 10, on an accepted and on a
  rejected source.
\<close>

theorem Ripper_parse_result_witness:
  "Ripper_parse (\<lambda>s. s) (\<lambda>l. (l, if l = ''10'' then None else Some ''unexpected''))
     (\<lambda>p. p) (RClass ''Ripper'') 1 [StringObject ''10''] = StringObject ''10''
   \<and> Ripper_parse (\<lambda>s. s) (\<lambda>l. (l, if l = ''10'' then None else Some ''unexpected''))
     (\<lambda>p. p) (RClass ''Ripper'') 1 [StringObject ''10.times do''] =
       Error ''TypeError'' 1 ''InternalError%!(EXTRA string=String, string=Invalid Goby code)''"
  using Ripper_parse_result
      [of "\<lambda>s. s" "\<lambda>l. (l, if l = ''10'' then None else Some ''unexpected'')" "\<lambda>p. p"
          "RClass ''Ripper''" 1 "''10''"]
    Ripper_parse_result
      [of "\<lambda>s. s" "\<lambda>l. (l, if l = ''10'' then None else Some ''unexpected'')" "\<lambda>p. p"
          "RClass ''Ripper''" 1 "''10.times do''"]
  by (simp add: TypeError_def)

text \<open>
  Claim C10. For a GoMap and a string key, get returns the null object when the key is not
  in the map's data (the null object is not an error), the stored object when the stored
  value is a guest-language object, and the object that \<^verbatim>\<open>InitObjectFromGoType\<close> makes
  of the stored value otherwise.
\<close>

theorem GoMap_get_result:
  "(data m key = None \<longrightarrow>
      GoMap_get InitObjectFromGoType m n [StringObject key] = NullObject)
   \<and> (\<forall>obj. data m key = Some (GoObject obj) \<longrightarrow>
      GoMap_get InitObjectFromGoType m n [StringObject key] = obj)
   \<and> (\<forall>g. data m key = Some (GoRaw g) \<longrightarrow>
      GoMap_get InitObjectFromGoType m n [StringObject key] = InitObjectFromGoType g)
   \<and> \<not> isError NullObject"
  by (simp add: GoMap_get_def)

text \<open>
  Witness for C10: a map with a stored object and a stored Go value, read at an absent
  key and at both present keys.
\<close>

theorem GoMap_get_result_witness:
  "GoMap_get IntegerObject
     \<lparr>data = [''a'' \<mapsto> GoObject (StringObject ''x''), ''b'' \<mapsto> GoRaw 5]\<rparr> 1
     [StringObject ''c''] = NullObject
   \<and> GoMap_get IntegerObject
     \<lparr>data = [''a'' \<mapsto> GoObject (StringObject ''x''), ''b'' \<mapsto> GoRaw 5]\<rparr> 1
     [StringObject ''a''] = StringObject ''x''
   \<and> GoMap_get IntegerObject
     \<lparr>data = [''a'' \<mapsto> GoObject (StringObject ''x''), ''b'' \<mapsto> GoRaw 5]\<rparr> 1
     [StringObject ''b''] = IntegerObject 5"
  using GoMap_get_result
      [of "\<lparr>data = [''a'' \<mapsto> GoObject (StringObject ''x''), ''b'' \<mapsto> GoRaw 5]\<rparr>" "''c''"
          IntegerObject 1]
    GoMap_get_result
      [of "\<lparr>data = [''a'' \<mapsto> GoObject (StringObject ''x''), ''b'' \<mapsto> GoRaw 5]\<rparr>" "''a''"
          IntegerObject 1]
    GoMap_get_result
      [of "\<lparr>data = [''a'' \<mapsto> GoObject (StringObject ''x''), ''b'' \<mapsto> GoRaw 5]\<rparr>" "''b''"
          IntegerObject 1]
  by simp


lemma instructions_loop_eq:
  "instructions_loop l h a =
     (foldl (\<lambda>h ins. case ArgSet ins of
                Some argSet \<Rightarrow> AList.update ''arg_set'' (getArgNameType argSet) h
              | None \<Rightarrow> h) h l,
      a @ map (\<lambda>ins. HashObject (hInst_of ins)) l)"
  by (induction l arbitrary: h a) (simp_all add: Let_def)

lemma convertToTuple_loop_eq:
  "convertToTuple_loop instSet ary =
     ary @ concat (map (\<lambda>insts. [HashObject (hInsts_of insts), HashObject (hInsts_of insts)])
                    instSet)"
  by (induction instSet arbitrary: ary) (simp_all add: Let_def)

lemma convertToTuple_eq:
  "convertToTuple instSet =
     ArrayObject (concat (map (\<lambda>insts. [HashObject (hInsts_of insts), HashObject (hInsts_of insts)])
                    instSet))"
  by (simp add: convertToTuple_def convertToTuple_loop_eq)



lemma foldl_arg_set_other:
  "k \<noteq> ''arg_set'' \<Longrightarrow>
   map_of (foldl (\<lambda>h ins. case ArgSet ins of
                Some argSet \<Rightarrow> AList.update ''arg_set'' (getArgNameType argSet) h
              | None \<Rightarrow> h) h l) k = map_of h k"
  by (induction l arbitrary: h) (simp_all add: update_conv split: option.splits)

lemma hInsts_of_arg_types:
  "map_of (hInsts_of insts) ''arg_types'' = map_option getArgNameType (ArgTypes insts)"
  by (simp add: hInsts_of_def Let_def instructions_loop_eq update_conv foldl_arg_set_other
      split: option.splits)

text \<open>
  Claim C3. For a string argument S, Ripper.instruction returns the array of the
  instruction-set records when \<^verbatim>\<open>CompileToInstructions\<close> reports no error, and the
  TypeError object with the message of invalid code otherwise: it returns an error
  object if and only if \<^verbatim>\<open>CompileToInstructions\<close> reports an error (first two
  conjuncts, for any compiler). With the compiler of the spec, which only passes the
  parser's failure on, it returns an error object if and only if the parser rejects S,
  that is, if and only if Ripper.parse returns one for the same S, and then the two
  methods return the same error object; when the parser accepts S the result is the
  array made from the generated instruction sets. Each instruction set gives two
  entries of the array, since \<^verbatim>\<open>convertToTuple\<close> appends its record twice.
\<close>

theorem Ripper_instruction_result:
  "Ripper_instruction C r n [StringObject S] =
     (if snd (C S) = None
      then ArrayObject (concat (map (\<lambda>insts. [HashObject (hInsts_of insts),
                                               HashObject (hInsts_of insts)]) (fst (C S))))
      else Error TypeError n ''InternalError%!(EXTRA string=String, string=Invalid Goby code)'')
   \<and> (isError (Ripper_instruction C r n [StringObject S]) = (snd (C S) \<noteq> None))
   \<and> (isError (Ripper_instruction (CompileToInstructions lexNew P G) r n [StringObject S]) =
        (snd (P (lexNew S)) \<noteq> None))
   \<and> (isError (Ripper_instruction (CompileToInstructions lexNew P G) r n [StringObject S]) =
        isError (Ripper_parse lexNew P Str r n [StringObject S]))
   \<and> (snd (P (lexNew S)) \<noteq> None \<longrightarrow>
        Ripper_instruction (CompileToInstructions lexNew P G) r n [StringObject S] =
        Ripper_parse lexNew P Str r n [StringObject S])
   \<and> (snd (P (lexNew S)) = None \<longrightarrow>
        Ripper_instruction (CompileToInstructions lexNew P G) r n [StringObject S] =
        convertToTuple (G (fst (P (lexNew S)))))"
  by (cases "C S"; cases "P (lexNew S)")
    (simp add: Ripper_instruction_def Ripper_parse_def initErrorObject_invalid_code
      convertToTuple_eq CompileToInstructions_def)

text \<open>
  Witness for C3: a parser that accepts only the source \<^verbatim>\<open>a = 1\<close>, on that source and
  on a rejected one.
\<close>

theorem Ripper_instruction_result_witness:
  "Ripper_instruction
     (CompileToInstructions (\<lambda>s. s)
        (\<lambda>l. (l, if l = ''a = 1'' then None else Some ''unexpected''))
        (\<lambda>p. [\<lparr>Name = ''ProgramStart'', isType = ''Program'', ArgTypes = None,
                Instructions = [\<lparr>Action = ''putobject'', InsLine = 0, SourceLine = 1,
                  AnchorLine = (0, False), Params = [''1''], ArgSet = None\<rparr>]\<rparr>]))
     (RClass ''Ripper'') 1 [StringObject ''a = 1''] =
     ArrayObject
       [HashObject [(''name'', StringObject ''ProgramStart''), (''type'', StringObject ''Program''),
          (''instructions'', ArrayObject [HashObject [(''action'', StringObject ''putobject''),
             (''line'', IntegerObject 0), (''source_line'', IntegerObject 1),
             (''anchor'', IntegerObject 0), (''params'', ArrayObject [StringObject ''1''])]])],
        HashObject [(''name'', StringObject ''ProgramStart''), (''type'', StringObject ''Program''),
          (''instructions'', ArrayObject [HashObject [(''action'', StringObject ''putobject''),
             (''line'', IntegerObject 0), (''source_line'', IntegerObject 1),
             (''anchor'', IntegerObject 0), (''params'', ArrayObject [StringObject ''1''])]])]]
   \<and> Ripper_instruction
     (CompileToInstructions (\<lambda>s. s)
        (\<lambda>l. (l, if l = ''a = 1'' then None else Some ''unexpected''))
        (\<lambda>p. [\<lparr>Name = ''ProgramStart'', isType = ''Program'', ArgTypes = None,
                Instructions = [\<lparr>Action = ''putobject'', InsLine = 0, SourceLine = 1,
                  AnchorLine = (0, False), Params = [''1''], ArgSet = None\<rparr>]\<rparr>]))
     (RClass ''Ripper'') 1 [StringObject ''a =''] =
     Error ''TypeError'' 1 ''InternalError%!(EXTRA string=String, string=Invalid Goby code)''
   \<and> Ripper_parse (\<lambda>s. s) (\<lambda>l. (l, if l = ''a = 1'' then None else Some ''unexpected''))
     (\<lambda>p. p) (RClass ''Ripper'') 1 [StringObject ''a =''] =
     Error ''TypeError'' 1 ''InternalError%!(EXTRA string=String, string=Invalid Goby code)''"
  using Ripper_instruction_result
      [where C = "CompileToInstructions (\<lambda>s. s)
        (\<lambda>l. (l, if l = ''a = 1'' then None else Some ''unexpected''))
        (\<lambda>p. [\<lparr>Name = ''ProgramStart'', isType = ''Program'', ArgTypes = None,
                Instructions = [\<lparr>Action = ''putobject'', InsLine = 0, SourceLine = 1,
                  AnchorLine = (0, False), Params = [''1''], ArgSet = None\<rparr>]\<rparr>])"
        and r = "RClass ''Ripper''" and n = 1 and S = "''a = 1''" and lexNew = "\<lambda>s. s"
        and P = "\<lambda>l. (l, if l = ''a = 1'' then None else Some ''unexpected'')"
        and G = "\<lambda>p. [\<lparr>Name = ''ProgramStart'', isType = ''Program'', ArgTypes = None,
                Instructions = [\<lparr>Action = ''putobject'', InsLine = 0, SourceLine = 1,
                  AnchorLine = (0, False), Params = [''1''], ArgSet = None\<rparr>]\<rparr>]"
        and Str = "\<lambda>p. p"]
    Ripper_instruction_result
      [where C = "CompileToInstructions (\<lambda>s. s)
        (\<lambda>l. (l, if l = ''a = 1'' then None else Some ''unexpected''))
        (\<lambda>p. [\<lparr>Name = ''ProgramStart'', isType = ''Program'', ArgTypes = None,
                Instructions = [\<lparr>Action = ''putobject'', InsLine = 0, SourceLine = 1,
                  AnchorLine = (0, False), Params = [''1''], ArgSet = None\<rparr>]\<rparr>])"
        and r = "RClass ''Ripper''" and n = 1 and S = "''a =''" and lexNew = "\<lambda>s. s"
        and P = "\<lambda>l. (l, if l = ''a = 1'' then None else Some ''unexpected'')"
        and G = "\<lambda>p. [\<lparr>Name = ''ProgramStart'', isType = ''Program'', ArgTypes = None,
                Instructions = [\<lparr>Action = ''putobject'', InsLine = 0, SourceLine = 1,
                  AnchorLine = (0, False), Params = [''1''], ArgSet = None\<rparr>]\<rparr>]"
        and Str = "\<lambda>p. p"]
  by (simp add: TypeError_def convertToTuple_def hInsts_of_def hInst_of_def Let_def
      CompileToInstructions_def Ripper_parse_def initErrorObject_def InternalError_def
      StringClass_def InvalidGobyCode_def)

section \<open>The lexer reaches the end of every input\<close>

lemma skipWhitespace_length: "length (fst (skipWhitespace b s n)) \<le> length s"
  by (induction b s n rule: skipWhitespace.induct) (auto intro: le_SucI)

lemma keyword_not_EOF: "map_of keywordTable lit = Some t \<Longrightarrow> t \<noteq> token_EOF"
  by (auto simp: keywordTable_def token_EOF_def token_Class_def token_End_def
      split: if_splits)

lemma lookupIdent_not_EOF: "lookupIdent lit \<noteq> token_EOF"
  by (auto simp: lookupIdent_def token_Constant_def token_Ident_def token_EOF_def
      dest: keyword_not_EOF split: option.splits)

lemma operators_entry:
  "(lit, t) \<in> set operators \<Longrightarrow> lit \<noteq> [] \<and> t \<noteq> token_EOF"
  by (auto simp: operators_def token_EOF_def)

lemma find_in_set: "find P xs = Some x \<Longrightarrow> x \<in> set xs"
  by (induction xs) (auto split: if_splits)

lemma find_operators:
  "find P operators = Some (lit, t) \<Longrightarrow> lit \<noteq> [] \<and> t \<noteq> token_EOF"
  by (rule operators_entry) (rule find_in_set)

lemma length_dropWhile_tail:
  "dropWhile P cs = d # e # rest \<Longrightarrow> length (dropWhile Q rest) \<le> length cs"
proof -
  assume h: "dropWhile P cs = d # e # rest"
  have "length (dropWhile Q rest) \<le> length rest" by (rule length_dropWhile_le)
  also have "\<dots> \<le> length (dropWhile P cs)" by (simp add: h)
  also have "\<dots> \<le> length cs" by (rule length_dropWhile_le)
  finally show ?thesis .
qed

lemma find_operators_length:
  "find P operators = Some (lit, t) \<Longrightarrow> Suc 0 \<le> length lit"
  using find_operators [of P lit t] by (cases lit) simp_all

lemma length_dropWhile_Suc: "length (dropWhile P cs) \<le> Suc (length cs)"
  by (rule le_SucI) (rule length_dropWhile_le)

lemma readToken_rest:
  "readToken c cs = (t, lit, rest') \<Longrightarrow> length rest' \<le> length cs"
  by (auto simp: readToken_def Let_def length_dropWhile_le length_dropWhile_tail
      le_diff_conv length_dropWhile_Suc find_operators_length
      split: if_splits list.splits option.splits)

lemma readToken_not_EOF:
  "readToken c cs = (t, lit, rest') \<Longrightarrow> t \<noteq> token_EOF"
  using lookupIdent_not_EOF
  by (auto simp: readToken_def Let_def token_Float_def token_Int_def
      token_String_def token_Illegal_def token_EOF_def
      dest: find_operators split: if_splits list.splits option.splits)

lemma NextToken_step:
  "NextToken l = (nt, l') \<Longrightarrow>
     (Type nt = token_EOF \<and> Literal nt = [])
     \<or> (Type nt \<noteq> token_EOF \<and> length (input l') < length (input l))"
proof -
  assume h: "NextToken l = (nt, l')"
  obtain rest n where sk: "skipWhitespace False (input l) (line l) = (rest, n)"
    by (cases "skipWhitespace False (input l) (line l)")
  have len: "length rest \<le> length (input l)"
    using skipWhitespace_length [of False "input l" "line l"] by (simp add: sk)
  show ?thesis
  proof (cases rest)
    case Nil
    with h sk show ?thesis by (auto simp: NextToken_def)
  next
    case (Cons c cs)
    obtain t lit rest' where rt: "readToken c cs = (t, lit, rest')"
      by (cases "readToken c cs")
    from h sk Cons rt have "Type nt = t" and "input l' = rest'"
      by (auto simp: NextToken_def)
    moreover have "t \<noteq> token_EOF" using rt by (rule readToken_not_EOF)
    moreover have "length rest' \<le> length cs" using rt by (rule readToken_rest)
    ultimately show ?thesis using len Cons by simp
  qed
qed

lemma lex_loop_total:
  assumes step: "\<And>l nt l'. NT l = (nt, l') \<Longrightarrow>
     (Type nt = token_EOF \<and> P nt) \<or> (Type nt \<noteq> token_EOF \<and> m l' < (m l :: nat))"
  shows "\<exists>toks nt. lex_loop NT l els = Some (els @ map lex_entry toks @ [lex_entry nt])
           \<and> Type nt = token_EOF \<and> P nt"
proof (induction "m l" arbitrary: l els rule: less_induct)
  case less
  obtain nt l' where nx: "NT l = (nt, l')" by (cases "NT l")
  show ?case
  proof (cases "Type nt = token_EOF")
    case True
    with step [OF nx] have "P nt" by simp
    with True nx have
      "lex_loop NT l els = Some (els @ map lex_entry [] @ [lex_entry nt]) \<and>
       Type nt = token_EOF \<and> P nt"
      by (subst lex_loop.simps) simp
    then show ?thesis by blast
  next
    case False
    with step [OF nx] have "m l' < m l" by simp
    from less [OF this, of "els @ [lex_entry nt]"] obtain toks nt' where
      r: "lex_loop NT l' (els @ [lex_entry nt]) =
            Some ((els @ [lex_entry nt]) @ map lex_entry toks @ [lex_entry nt'])"
      and e: "Type nt' = token_EOF" "P nt'" by blast
    from False nx r have
      "lex_loop NT l els = Some (els @ map lex_entry (nt # toks) @ [lex_entry nt'])"
      by (subst lex_loop.simps) simp
    with e show ?thesis by blast
  qed
qed

lemma lex_entry_EOF:
  "Type nt = token_EOF \<Longrightarrow> Literal nt = [] \<Longrightarrow>
   lex_entry nt = ArrayObject [IntegerObject (Line nt), StringObject ''on_eof'', StringObject []]"
  by (simp add: lex_entry_def convertLex_def token_EOF_def ToLower_def toLower_char_def)

text \<open>
  Claim C2. For every string S, Ripper.lex over the lexer returns (its loop ends) an array
  of triples of line, token-kind name and literal, whose last triple has the kind name
  on_eof and the empty literal; the result is never an error object.
\<close>

theorem Ripper_lex_total:
  "\<exists>toks n. Ripper_lex New NextToken r sl [StringObject S] =
     Some (ArrayObject (map lex_entry toks @
       [ArrayObject [IntegerObject n, StringObject ''on_eof'', StringObject []]]))"
proof -
  have "\<exists>toks nt. lex_loop NextToken (New S) [] =
          Some ([] @ map lex_entry toks @ [lex_entry nt])
          \<and> Type nt = token_EOF \<and> Literal nt = []"
    by (rule lex_loop_total [where m = "\<lambda>l. length (input l)"]) (rule NextToken_step)
  then obtain toks nt where
    r: "lex_loop NextToken (New S) [] = Some (map lex_entry toks @ [lex_entry nt])"
    and e: "Type nt = token_EOF" "Literal nt = []" by auto
  from r e show ?thesis
    by (auto simp: Ripper_lex_def lex_entry_EOF)
qed

text \<open>
  Witness for C2: an input of two bytes that are not text.
\<close>

theorem Ripper_lex_total_witness:
  "\<exists>toks n. Ripper_lex New NextToken (RClass ''Ripper'') 1 [StringObject [CHR 0xFF, CHR 0x00]] =
     Some (ArrayObject (map lex_entry toks @
       [ArrayObject [IntegerObject n, StringObject ''on_eof'', StringObject []]]))"
  by (rule Ripper_lex_total)

section \<open>The lexer on the inputs of the tests and of the documentation\<close>

text \<open>
  The three cases of \<^verbatim>\<open>TestRipperLex\<close> and of \<^verbatim>\<open>TestRipperToken\<close> in
  \<^verbatim>\<open>ripper_test.go\<close>, input and expected output, and the first example in the
  documentation of \<^verbatim>\<open>Ripper.lex\<close> and its second, of invalid code.
\<close>

lemma TestRipperLex_case_1:
  "Ripper_lex New NextToken (RClass ''Ripper'') 1
     [StringObject
        ([CHR 0x0A, CHR 0x09] @ ''class Bar'' @ [CHR 0x0A, CHR 0x09, CHR 0x09] @
         ''def self.foo'' @ [CHR 0x0A, CHR 0x09, CHR 0x09, CHR 0x09] @ ''10'' @
         [CHR 0x0A, CHR 0x09, CHR 0x09] @ ''end'' @ [CHR 0x0A, CHR 0x09] @ ''end'' @
         [CHR 0x0A, CHR 0x09] @ ''class Foo < Bar; end'' @ [CHR 0x0A, CHR 0x09] @
         ''class FooBar < Foo; end'' @ [CHR 0x0A, CHR 0x09] @ ''FooBar.foo'' @ [CHR 0x0A])] =
     Some (ArrayObject
       [ArrayObject [IntegerObject 1, StringObject ''on_class'', StringObject ''class''],
        ArrayObject [IntegerObject 1, StringObject ''on_constant'', StringObject ''Bar''],
        ArrayObject [IntegerObject 2, StringObject ''on_def'', StringObject ''def''],
        ArrayObject [IntegerObject 2, StringObject ''on_self'', StringObject ''self''],
        ArrayObject [IntegerObject 2, StringObject ''on_dot'', StringObject ''.''],
        ArrayObject [IntegerObject 2, StringObject ''on_ident'', StringObject ''foo''],
        ArrayObject [IntegerObject 3, StringObject ''on_int'', StringObject ''10''],
        ArrayObject [IntegerObject 4, StringObject ''on_end'', StringObject ''end''],
        ArrayObject [IntegerObject 5, StringObject ''on_end'', StringObject ''end''],
        ArrayObject [IntegerObject 6, StringObject ''on_class'', StringObject ''class''],
        ArrayObject [IntegerObject 6, StringObject ''on_constant'', StringObject ''Foo''],
        ArrayObject [IntegerObject 6, StringObject ''on_lt'', StringObject ''<''],
        ArrayObject [IntegerObject 6, StringObject ''on_constant'', StringObject ''Bar''],
        ArrayObject [IntegerObject 6, StringObject ''on_semicolon'', StringObject '';''],
        ArrayObject [IntegerObject 6, StringObject ''on_end'', StringObject ''end''],
        ArrayObject [IntegerObject 7, StringObject ''on_class'', StringObject ''class''],
        ArrayObject [IntegerObject 7, StringObject ''on_constant'', StringObject ''FooBar''],
        ArrayObject [IntegerObject 7, StringObject ''on_lt'', StringObject ''<''],
        ArrayObject [IntegerObject 7, StringObject ''on_constant'', StringObject ''Foo''],
        ArrayObject [IntegerObject 7, StringObject ''on_semicolon'', StringObject '';''],
        ArrayObject [IntegerObject 7, StringObject ''on_end'', StringObject ''end''],
        ArrayObject [IntegerObject 8, StringObject ''on_constant'', StringObject ''FooBar''],
        ArrayObject [IntegerObject 8, StringObject ''on_dot'', StringObject ''.''],
        ArrayObject [IntegerObject 8, StringObject ''on_ident'', StringObject ''foo''],
        ArrayObject [IntegerObject 9, StringObject ''on_eof'', StringObject []]])"
  by code_simp

lemma TestRipperLex_case_2:
  "Ripper_lex New NextToken (RClass ''Ripper'') 1
     [StringObject
        ([CHR 0x0A, CHR 0x09] @ ''def foo(x)'' @ [CHR 0x0A, CHR 0x09] @ ''  yield(x + 10)'' @
         [CHR 0x0A, CHR 0x09] @ ''end'' @ [CHR 0x0A, CHR 0x09] @ ''def bar(y)'' @
         [CHR 0x0A, CHR 0x09] @ ''  foo(y) do |f|'' @ [CHR 0x0A, CHR 0x09, CHR 0x09] @
         ''yield(f)'' @ [CHR 0x0A, CHR 0x09] @ ''  end'' @ [CHR 0x0A, CHR 0x09] @ ''end'' @
         [CHR 0x0A, CHR 0x09] @ ''def baz(z)'' @ [CHR 0x0A, CHR 0x09] @
         ''  bar(z + 100) do |b|'' @ [CHR 0x0A, CHR 0x09, CHR 0x09] @ ''yield(b)'' @
         [CHR 0x0A, CHR 0x09] @ ''  end'' @ [CHR 0x0A, CHR 0x09] @ ''end'' @
         [CHR 0x0A, CHR 0x09] @ ''a = 0'' @ [CHR 0x0A, CHR 0x09] @ ''baz(100) do |b|'' @
         [CHR 0x0A, CHR 0x09] @ ''  a = b'' @ [CHR 0x0A, CHR 0x09] @ ''end'' @
         [CHR 0x0A, CHR 0x09] @ ''a'' @ [CHR 0x0A, CHR 0x0A, CHR 0x09] @ ''class Foo'' @
         [CHR 0x0A, CHR 0x09] @ ''  def bar'' @ [CHR 0x0A, CHR 0x09, CHR 0x09] @ ''100'' @
         [CHR 0x0A, CHR 0x09] @ ''  end'' @ [CHR 0x0A, CHR 0x09] @ ''end'' @
         [CHR 0x0A, CHR 0x09] @ ''module Baz'' @ [CHR 0x0A, CHR 0x09] @ ''  class Bar'' @
         [CHR 0x0A, CHR 0x09, CHR 0x09] @ ''def bar'' @ [CHR 0x0A, CHR 0x09, CHR 0x09] @
         ''  Foo.new.bar'' @ [CHR 0x0A, CHR 0x09, CHR 0x09] @ ''end'' @ [CHR 0x0A, CHR 0x09] @
         ''  end'' @ [CHR 0x0A, CHR 0x09] @ ''end'' @ [CHR 0x0A, CHR 0x09] @
         ''Baz::Bar.new.bar + a'' @ [CHR 0x0A])] =
     Some (ArrayObject
       [ArrayObject [IntegerObject 1, StringObject ''on_def'', StringObject ''def''],
        ArrayObject [IntegerObject 1, StringObject ''on_ident'', StringObject ''foo''],
        ArrayObject [IntegerObject 1, StringObject ''on_lparen'', StringObject ''(''],
        ArrayObject [IntegerObject 1, StringObject ''on_ident'', StringObject ''x''],
        ArrayObject [IntegerObject 1, StringObject ''on_rparen'', StringObject '')''],
        ArrayObject [IntegerObject 2, StringObject ''on_yield'', StringObject ''yield''],
        ArrayObject [IntegerObject 2, StringObject ''on_lparen'', StringObject ''(''],
        ArrayObject [IntegerObject 2, StringObject ''on_ident'', StringObject ''x''],
        ArrayObject [IntegerObject 2, StringObject ''on_plus'', StringObject ''+''],
        ArrayObject [IntegerObject 2, StringObject ''on_int'', StringObject ''10''],
        ArrayObject [IntegerObject 2, StringObject ''on_rparen'', StringObject '')''],
        ArrayObject [IntegerObject 3, StringObject ''on_end'', StringObject ''end''],
        ArrayObject [IntegerObject 4, StringObject ''on_def'', StringObject ''def''],
        ArrayObject [IntegerObject 4, StringObject ''on_ident'', StringObject ''bar''],
        ArrayObject [IntegerObject 4, StringObject ''on_lparen'', StringObject ''(''],
        ArrayObject [IntegerObject 4, StringObject ''on_ident'', StringObject ''y''],
        ArrayObject [IntegerObject 4, StringObject ''on_rparen'', StringObject '')''],
        ArrayObject [IntegerObject 5, StringObject ''on_ident'', StringObject ''foo''],
        ArrayObject [IntegerObject 5, StringObject ''on_lparen'', StringObject ''(''],
        ArrayObject [IntegerObject 5, StringObject ''on_ident'', StringObject ''y''],
        ArrayObject [IntegerObject 5, StringObject ''on_rparen'', StringObject '')''],
        ArrayObject [IntegerObject 5, StringObject ''on_do'', StringObject ''do''],
        ArrayObject [IntegerObject 5, StringObject ''on_bar'', StringObject ''|''],
        ArrayObject [IntegerObject 5, StringObject ''on_ident'', StringObject ''f''],
        ArrayObject [IntegerObject 5, StringObject ''on_bar'', StringObject ''|''],
        ArrayObject [IntegerObject 6, StringObject ''on_yield'', StringObject ''yield''],
        ArrayObject [IntegerObject 6, StringObject ''on_lparen'', StringObject ''(''],
        ArrayObject [IntegerObject 6, StringObject ''on_ident'', StringObject ''f''],
        ArrayObject [IntegerObject 6, StringObject ''on_rparen'', StringObject '')''],
        ArrayObject [IntegerObject 7, StringObject ''on_end'', StringObject ''end''],
        ArrayObject [IntegerObject 8, StringObject ''on_end'', StringObject ''end''],
        ArrayObject [IntegerObject 9, StringObject ''on_def'', StringObject ''def''],
        ArrayObject [IntegerObject 9, StringObject ''on_ident'', StringObject ''baz''],
        ArrayObject [IntegerObject 9, StringObject ''on_lparen'', StringObject ''(''],
        ArrayObject [IntegerObject 9, StringObject ''on_ident'', StringObject ''z''],
        ArrayObject [IntegerObject 9, StringObject ''on_rparen'', StringObject '')''],
        ArrayObject [IntegerObject 10, StringObject ''on_ident'', StringObject ''bar''],
        ArrayObject [IntegerObject 10, StringObject ''on_lparen'', StringObject ''(''],
        ArrayObject [IntegerObject 10, StringObject ''on_ident'', StringObject ''z''],
        ArrayObject [IntegerObject 10, StringObject ''on_plus'', StringObject ''+''],
        ArrayObject [IntegerObject 10, StringObject ''on_int'', StringObject ''100''],
        ArrayObject [IntegerObject 10, StringObject ''on_rparen'', StringObject '')''],
        ArrayObject [IntegerObject 10, StringObject ''on_do'', StringObject ''do''],
        ArrayObject [IntegerObject 10, StringObject ''on_bar'', StringObject ''|''],
        ArrayObject [IntegerObject 10, StringObject ''on_ident'', StringObject ''b''],
        ArrayObject [IntegerObject 10, StringObject ''on_bar'', StringObject ''|''],
        ArrayObject [IntegerObject 11, StringObject ''on_yield'', StringObject ''yield''],
        ArrayObject [IntegerObject 11, StringObject ''on_lparen'', StringObject ''(''],
        ArrayObject [IntegerObject 11, StringObject ''on_ident'', StringObject ''b''],
        ArrayObject [IntegerObject 11, StringObject ''on_rparen'', StringObject '')''],
        ArrayObject [IntegerObject 12, StringObject ''on_end'', StringObject ''end''],
        ArrayObject [IntegerObject 13, StringObject ''on_end'', StringObject ''end''],
        ArrayObject [IntegerObject 14, StringObject ''on_ident'', StringObject ''a''],
        ArrayObject [IntegerObject 14, StringObject ''on_assign'', StringObject ''=''],
        ArrayObject [IntegerObject 14, StringObject ''on_int'', StringObject ''0''],
        ArrayObject [IntegerObject 15, StringObject ''on_ident'', StringObject ''baz''],
        ArrayObject [IntegerObject 15, StringObject ''on_lparen'', StringObject ''(''],
        ArrayObject [IntegerObject 15, StringObject ''on_int'', StringObject ''100''],
        ArrayObject [IntegerObject 15, StringObject ''on_rparen'', StringObject '')''],
        ArrayObject [IntegerObject 15, StringObject ''on_do'', StringObject ''do''],
        ArrayObject [IntegerObject 15, StringObject ''on_bar'', StringObject ''|''],
        ArrayObject [IntegerObject 15, StringObject ''on_ident'', StringObject ''b''],
        ArrayObject [IntegerObject 15, StringObject ''on_bar'', StringObject ''|''],
        ArrayObject [IntegerObject 16, StringObject ''on_ident'', StringObject ''a''],
        ArrayObject [IntegerObject 16, StringObject ''on_assign'', StringObject ''=''],
        ArrayObject [IntegerObject 16, StringObject ''on_ident'', StringObject ''b''],
        ArrayObject [IntegerObject 17, StringObject ''on_end'', StringObject ''end''],
        ArrayObject [IntegerObject 18, StringObject ''on_ident'', StringObject ''a''],
        ArrayObject [IntegerObject 20, StringObject ''on_class'', StringObject ''class''],
        ArrayObject [IntegerObject 20, StringObject ''on_constant'', StringObject ''Foo''],
        ArrayObject [IntegerObject 21, StringObject ''on_def'', StringObject ''def''],
        ArrayObject [IntegerObject 21, StringObject ''on_ident'', StringObject ''bar''],
        ArrayObject [IntegerObject 22, StringObject ''on_int'', StringObject ''100''],
        ArrayObject [IntegerObject 23, StringObject ''on_end'', StringObject ''end''],
        ArrayObject [IntegerObject 24, StringObject ''on_end'', StringObject ''end''],
        ArrayObject [IntegerObject 25, StringObject ''on_module'', StringObject ''module''],
        ArrayObject [IntegerObject 25, StringObject ''on_constant'', StringObject ''Baz''],
        ArrayObject [IntegerObject 26, StringObject ''on_class'', StringObject ''class''],
        ArrayObject [IntegerObject 26, StringObject ''on_constant'', StringObject ''Bar''],
        ArrayObject [IntegerObject 27, StringObject ''on_def'', StringObject ''def''],
        ArrayObject [IntegerObject 27, StringObject ''on_ident'', StringObject ''bar''],
        ArrayObject [IntegerObject 28, StringObject ''on_constant'', StringObject ''Foo''],
        ArrayObject [IntegerObject 28, StringObject ''on_dot'', StringObject ''.''],
        ArrayObject [IntegerObject 28, StringObject ''on_ident'', StringObject ''new''],
        ArrayObject [IntegerObject 28, StringObject ''on_dot'', StringObject ''.''],
        ArrayObject [IntegerObject 28, StringObject ''on_ident'', StringObject ''bar''],
        ArrayObject [IntegerObject 29, StringObject ''on_end'', StringObject ''end''],
        ArrayObject [IntegerObject 30, StringObject ''on_end'', StringObject ''end''],
        ArrayObject [IntegerObject 31, StringObject ''on_end'', StringObject ''end''],
        ArrayObject [IntegerObject 32, StringObject ''on_constant'', StringObject ''Baz''],
        ArrayObject [IntegerObject 32, StringObject ''on_resolutionoperator'', StringObject ''::''],
        ArrayObject [IntegerObject 32, StringObject ''on_constant'', StringObject ''Bar''],
        ArrayObject [IntegerObject 32, StringObject ''on_dot'', StringObject ''.''],
        ArrayObject [IntegerObject 32, StringObject ''on_ident'', StringObject ''new''],
        ArrayObject [IntegerObject 32, StringObject ''on_dot'', StringObject ''.''],
        ArrayObject [IntegerObject 32, StringObject ''on_ident'', StringObject ''bar''],
        ArrayObject [IntegerObject 32, StringObject ''on_plus'', StringObject ''+''],
        ArrayObject [IntegerObject 32, StringObject ''on_ident'', StringObject ''a''],
        ArrayObject [IntegerObject 33, StringObject ''on_eof'', StringObject []]])"
  by code_simp

lemma TestRipperLex_case_3:
  "Ripper_lex New NextToken (RClass ''Ripper'') 1
     [StringObject
        ([CHR 0x0A, CHR 0x09] @ ''def bar(block)'' @ [CHR 0x0A, CHR 0x09] @
         ''block.call + get_block.call'' @ [CHR 0x0A, CHR 0x09] @ ''end'' @
         [CHR 0x0A, CHR 0x09, CHR 0x0A, CHR 0x09] @ ''def foo'' @
         [CHR 0x0A, CHR 0x09, CHR 0x09] @ ''bar(get_block) do'' @ [CHR 0x0A] @ ''  '' @
         [CHR 0x09, CHR 0x09] @ ''20'' @ [CHR 0x0A, CHR 0x09, CHR 0x09] @ ''end'' @
         [CHR 0x0A, CHR 0x09] @ ''end'' @ [CHR 0x0A, CHR 0x09, CHR 0x0A, CHR 0x09] @
         ''foo do'' @ [CHR 0x0A, CHR 0x09, CHR 0x09] @ ''10'' @ [CHR 0x0A, CHR 0x09] @
         ''end'' @ [CHR 0x0A])] =
     Some (ArrayObject
       [ArrayObject [IntegerObject 1, StringObject ''on_def'', StringObject ''def''],
        ArrayObject [IntegerObject 1, StringObject ''on_ident'', StringObject ''bar''],
        ArrayObject [IntegerObject 1, StringObject ''on_lparen'', StringObject ''(''],
        ArrayObject [IntegerObject 1, StringObject ''on_ident'', StringObject ''block''],
        ArrayObject [IntegerObject 1, StringObject ''on_rparen'', StringObject '')''],
        ArrayObject [IntegerObject 2, StringObject ''on_ident'', StringObject ''block''],
        ArrayObject [IntegerObject 2, StringObject ''on_dot'', StringObject ''.''],
        ArrayObject [IntegerObject 2, StringObject ''on_ident'', StringObject ''call''],
        ArrayObject [IntegerObject 2, StringObject ''on_plus'', StringObject ''+''],
        ArrayObject [IntegerObject 2, StringObject ''on_get_block'', StringObject ''get_block''],
        ArrayObject [IntegerObject 2, StringObject ''on_dot'', StringObject ''.''],
        ArrayObject [IntegerObject 2, StringObject ''on_ident'', StringObject ''call''],
        ArrayObject [IntegerObject 3, StringObject ''on_end'', StringObject ''end''],
        ArrayObject [IntegerObject 5, StringObject ''on_def'', StringObject ''def''],
        ArrayObject [IntegerObject 5, StringObject ''on_ident'', StringObject ''foo''],
        ArrayObject [IntegerObject 6, StringObject ''on_ident'', StringObject ''bar''],
        ArrayObject [IntegerObject 6, StringObject ''on_lparen'', StringObject ''(''],
        ArrayObject [IntegerObject 6, StringObject ''on_get_block'', StringObject ''get_block''],
        ArrayObject [IntegerObject 6, StringObject ''on_rparen'', StringObject '')''],
        ArrayObject [IntegerObject 6, StringObject ''on_do'', StringObject ''do''],
        ArrayObject [IntegerObject 7, StringObject ''on_int'', StringObject ''20''],
        ArrayObject [IntegerObject 8, StringObject ''on_end'', StringObject ''end''],
        ArrayObject [IntegerObject 9, StringObject ''on_end'', StringObject ''end''],
        ArrayObject [IntegerObject 11, StringObject ''on_ident'', StringObject ''foo''],
        ArrayObject [IntegerObject 11, StringObject ''on_do'', StringObject ''do''],
        ArrayObject [IntegerObject 12, StringObject ''on_int'', StringObject ''10''],
        ArrayObject [IntegerObject 13, StringObject ''on_end'', StringObject ''end''],
        ArrayObject [IntegerObject 14, StringObject ''on_eof'', StringObject []]])"
  by code_simp

lemma TestRipperToken_case_1:
  "Ripper_token New NextToken (RClass ''Ripper'') 1
     [StringObject
        ([CHR 0x0A, CHR 0x09] @ ''class Bar'' @ [CHR 0x0A, CHR 0x09, CHR 0x09] @
         ''def self.foo'' @ [CHR 0x0A, CHR 0x09, CHR 0x09, CHR 0x09] @ ''10'' @
         [CHR 0x0A, CHR 0x09, CHR 0x09] @ ''end'' @ [CHR 0x0A, CHR 0x09] @ ''end'' @
         [CHR 0x0A, CHR 0x09] @ ''class Foo < Bar; end'' @ [CHR 0x0A, CHR 0x09] @
         ''class FooBar < Foo; end'' @ [CHR 0x0A, CHR 0x09] @ ''FooBar.foo'' @ [CHR 0x0A])] =
     Some (ArrayObject
       [StringObject ''class'', StringObject ''Bar'', StringObject ''def'',
        StringObject ''self'', StringObject ''.'', StringObject ''foo'', StringObject ''10'',
        StringObject ''end'', StringObject ''end'', StringObject ''class'',
        StringObject ''Foo'', StringObject ''<'', StringObject ''Bar'', StringObject '';'',
        StringObject ''end'', StringObject ''class'', StringObject ''FooBar'',
        StringObject ''<'', StringObject ''Foo'', StringObject '';'', StringObject ''end'',
        StringObject ''FooBar'', StringObject ''.'', StringObject ''foo'',
        StringObject ''EOF''])"
  by code_simp

lemma TestRipperToken_case_2:
  "Ripper_token New NextToken (RClass ''Ripper'') 1
     [StringObject
        ([CHR 0x0A, CHR 0x09] @ ''def foo(x)'' @ [CHR 0x0A, CHR 0x09] @ ''  yield(x + 10)'' @
         [CHR 0x0A, CHR 0x09] @ ''end'' @ [CHR 0x0A, CHR 0x09] @ ''def bar(y)'' @
         [CHR 0x0A, CHR 0x09] @ ''  foo(y) do |f|'' @ [CHR 0x0A, CHR 0x09, CHR 0x09] @
         ''yield(f)'' @ [CHR 0x0A, CHR 0x09] @ ''  end'' @ [CHR 0x0A, CHR 0x09] @ ''end'' @
         [CHR 0x0A, CHR 0x09] @ ''def baz(z)'' @ [CHR 0x0A, CHR 0x09] @
         ''  bar(z + 100) do |b|'' @ [CHR 0x0A, CHR 0x09, CHR 0x09] @ ''yield(b)'' @
         [CHR 0x0A, CHR 0x09] @ ''  end'' @ [CHR 0x0A, CHR 0x09] @ ''end'' @
         [CHR 0x0A, CHR 0x09] @ ''a = 0'' @ [CHR 0x0A, CHR 0x09] @ ''baz(100) do |b|'' @
         [CHR 0x0A, CHR 0x09] @ ''  a = b'' @ [CHR 0x0A, CHR 0x09] @ ''end'' @
         [CHR 0x0A, CHR 0x09] @ ''a'' @ [CHR 0x0A, CHR 0x0A, CHR 0x09] @ ''class Foo'' @
         [CHR 0x0A, CHR 0x09] @ ''  def bar'' @ [CHR 0x0A, CHR 0x09, CHR 0x09] @ ''100'' @
         [CHR 0x0A, CHR 0x09] @ ''  end'' @ [CHR 0x0A, CHR 0x09] @ ''end'' @
         [CHR 0x0A, CHR 0x09] @ ''module Baz'' @ [CHR 0x0A, CHR 0x09] @ ''  class Bar'' @
         [CHR 0x0A, CHR 0x09, CHR 0x09] @ ''def bar'' @ [CHR 0x0A, CHR 0x09, CHR 0x09] @
         ''  Foo.new.bar'' @ [CHR 0x0A, CHR 0x09, CHR 0x09] @ ''end'' @ [CHR 0x0A, CHR 0x09] @
         ''  end'' @ [CHR 0x0A, CHR 0x09] @ ''end'' @ [CHR 0x0A, CHR 0x09] @
         ''Baz::Bar.new.bar + a'' @ [CHR 0x0A])] =
     Some (ArrayObject
       [StringObject ''def'', StringObject ''foo'', StringObject ''('', StringObject ''x'',
        StringObject '')'', StringObject ''yield'', StringObject ''('', StringObject ''x'',
        StringObject ''+'', StringObject ''10'', StringObject '')'', StringObject ''end'',
        StringObject ''def'', StringObject ''bar'', StringObject ''('', StringObject ''y'',
        StringObject '')'', StringObject ''foo'', StringObject ''('', StringObject ''y'',
        StringObject '')'', StringObject ''do'', StringObject ''|'', StringObject ''f'',
        StringObject ''|'', StringObject ''yield'', StringObject ''('', StringObject ''f'',
        StringObject '')'', StringObject ''end'', StringObject ''end'', StringObject ''def'',
        StringObject ''baz'', StringObject ''('', StringObject ''z'', StringObject '')'',
        StringObject ''bar'', StringObject ''('', StringObject ''z'', StringObject ''+'',
        StringObject ''100'', StringObject '')'', StringObject ''do'', StringObject ''|'',
        StringObject ''b'', StringObject ''|'', StringObject ''yield'', StringObject ''('',
        StringObject ''b'', StringObject '')'', StringObject ''end'', StringObject ''end'',
        StringObject ''a'', StringObject ''='', StringObject ''0'', StringObject ''baz'',
        StringObject ''('', StringObject ''100'', StringObject '')'', StringObject ''do'',
        StringObject ''|'', StringObject ''b'', StringObject ''|'', StringObject ''a'',
        StringObject ''='', StringObject ''b'', StringObject ''end'', StringObject ''a'',
        StringObject ''class'', StringObject ''Foo'', StringObject ''def'',
        StringObject ''bar'', StringObject ''100'', StringObject ''end'',
        StringObject ''end'', StringObject ''module'', StringObject ''Baz'',
        StringObject ''class'', StringObject ''Bar'', StringObject ''def'',
        StringObject ''bar'', StringObject ''Foo'', StringObject ''.'', StringObject ''new'',
        StringObject ''.'', StringObject ''bar'', StringObject ''end'', StringObject ''end'',
        StringObject ''end'', StringObject ''Baz'', StringObject ''::'',
        StringObject ''Bar'', StringObject ''.'', StringObject ''new'', StringObject ''.'',
        StringObject ''bar'', StringObject ''+'', StringObject ''a'', StringObject ''EOF''])"
  by code_simp

lemma TestRipperToken_case_3:
  "Ripper_token New NextToken (RClass ''Ripper'') 1
     [StringObject
        ([CHR 0x0A, CHR 0x09] @ ''def bar(block)'' @ [CHR 0x0A, CHR 0x09] @
         ''block.call + get_block.call'' @ [CHR 0x0A, CHR 0x09] @ ''end'' @
         [CHR 0x0A, CHR 0x09, CHR 0x0A, CHR 0x09] @ ''def foo'' @
         [CHR 0x0A, CHR 0x09, CHR 0x09] @ ''bar(get_block) do'' @ [CHR 0x0A] @ ''  '' @
         [CHR 0x09, CHR 0x09] @ ''20'' @ [CHR 0x0A, CHR 0x09, CHR 0x09] @ ''end'' @
         [CHR 0x0A, CHR 0x09] @ ''end'' @ [CHR 0x0A, CHR 0x09, CHR 0x0A, CHR 0x09] @
         ''foo do'' @ [CHR 0x0A, CHR 0x09, CHR 0x09] @ ''10'' @ [CHR 0x0A, CHR 0x09] @
         ''end'' @ [CHR 0x0A])] =
     Some (ArrayObject
       [StringObject ''def'', StringObject ''bar'', StringObject ''('',
        StringObject ''block'', StringObject '')'', StringObject ''block'',
        StringObject ''.'', StringObject ''call'', StringObject ''+'',
        StringObject ''get_block'', StringObject ''.'', StringObject ''call'',
        StringObject ''end'', StringObject ''def'', StringObject ''foo'',
        StringObject ''bar'', StringObject ''('', StringObject ''get_block'',
        StringObject '')'', StringObject ''do'', StringObject ''20'', StringObject ''end'',
        StringObject ''end'', StringObject ''foo'', StringObject ''do'', StringObject ''10'',
        StringObject ''end'', StringObject ''EOF''])"
  by code_simp

lemma Ripper_lex_documented_example:
  "Ripper_lex New NextToken (RClass ''Ripper'') 1 [StringObject ''10.times do |i| puts i end''] =
     Some (ArrayObject
       [ArrayObject [IntegerObject 0, StringObject ''on_int'', StringObject ''10''],
        ArrayObject [IntegerObject 0, StringObject ''on_dot'', StringObject ''.''],
        ArrayObject [IntegerObject 0, StringObject ''on_ident'', StringObject ''times''],
        ArrayObject [IntegerObject 0, StringObject ''on_do'', StringObject ''do''],
        ArrayObject [IntegerObject 0, StringObject ''on_bar'', StringObject ''|''],
        ArrayObject [IntegerObject 0, StringObject ''on_ident'', StringObject ''i''],
        ArrayObject [IntegerObject 0, StringObject ''on_bar'', StringObject ''|''],
        ArrayObject [IntegerObject 0, StringObject ''on_ident'', StringObject ''puts''],
        ArrayObject [IntegerObject 0, StringObject ''on_ident'', StringObject ''i''],
        ArrayObject [IntegerObject 0, StringObject ''on_end'', StringObject ''end''],
        ArrayObject [IntegerObject 0, StringObject ''on_eof'', StringObject []]])"
  by code_simp

lemma Ripper_lex_documented_invalid_example:
  "Ripper_lex New NextToken (RClass ''Ripper'') 1 [StringObject ''10.times do |i| puts i''] =
     Some (ArrayObject
       [ArrayObject [IntegerObject 0, StringObject ''on_int'', StringObject ''10''],
        ArrayObject [IntegerObject 0, StringObject ''on_dot'', StringObject ''.''],
        ArrayObject [IntegerObject 0, StringObject ''on_ident'', StringObject ''times''],
        ArrayObject [IntegerObject 0, StringObject ''on_do'', StringObject ''do''],
        ArrayObject [IntegerObject 0, StringObject ''on_bar'', StringObject ''|''],
        ArrayObject [IntegerObject 0, StringObject ''on_ident'', StringObject ''i''],
        ArrayObject [IntegerObject 0, StringObject ''on_bar'', StringObject ''|''],
        ArrayObject [IntegerObject 0, StringObject ''on_ident'', StringObject ''puts''],
        ArrayObject [IntegerObject 0, StringObject ''on_ident'', StringObject ''i''],
        ArrayObject [IntegerObject 0, StringObject ''on_eof'', StringObject []]])"
  by code_simp

section \<open>The token-kind names, the anchors and the argument sets\<close>

text \<open>
  Claim C7, as amended. \<^verbatim>\<open>convertLex\<close> is a function on all token kinds (a kind
  outside its switch is lower-cased), it names the operator + on_plus and the keyword
  class on_class, and for the input of the two lines \<^verbatim>\<open>class Bar\<close> and \<^verbatim>\<open>end\<close>
  Ripper.lex returns (0, on_class, class), (0, on_constant, Bar), (1, on_end, end),
  (1, on_eof, empty): lines count the newlines consumed so far, from 0.
\<close>

theorem Ripper_lex_class_Bar:
  "convertLex token_Plus = ''on_plus''
   \<and> convertLex token_Class = ''on_class''
   \<and> Ripper_lex New NextToken (RClass ''Ripper'') 1
        [StringObject (''class Bar'' @ [CHR 0x0A] @ ''end'')] =
      Some (ArrayObject
        [ArrayObject [IntegerObject 0, StringObject ''on_class'', StringObject ''class''],
         ArrayObject [IntegerObject 0, StringObject ''on_constant'', StringObject ''Bar''],
         ArrayObject [IntegerObject 1, StringObject ''on_end'', StringObject ''end''],
         ArrayObject [IntegerObject 1, StringObject ''on_eof'', StringObject []]])"
  by code_simp

text \<open>
  Counterexample for C7 as stated: the result for that input is not the list with the
  lines 1, 1, 2 and 3.
\<close>

theorem Ripper_lex_class_Bar_counterexample:
  "Ripper_lex New NextToken (RClass ''Ripper'') 1
        [StringObject (''class Bar'' @ [CHR 0x0A] @ ''end'')] \<noteq>
      Some (ArrayObject
        [ArrayObject [IntegerObject 1, StringObject ''on_class'', StringObject ''class''],
         ArrayObject [IntegerObject 1, StringObject ''on_constant'', StringObject ''Bar''],
         ArrayObject [IntegerObject 2, StringObject ''on_end'', StringObject ''end''],
         ArrayObject [IntegerObject 3, StringObject ''on_eof'', StringObject []]])"
  by code_simp






text \<open>
  Claim C6, at the input where the code departs from it. The inner loop of
  \<^verbatim>\<open>convertToTuple\<close> writes the argument set of an instruction under the key arg_set
  of the record of the instruction set (\<^verbatim>\<open>hInsts\<close>), not of the instruction
  (\<^verbatim>\<open>hInst\<close>) as the documentation of \<^verbatim>\<open>Ripper.instruction\<close> lists it. The record of
  a top-level set, whose \<^verbatim>\<open>ArgTypes\<close> is nil, then carries an argument set when one
  of its instructions has one.
\<close>

theorem convertToTuple_arg_set_of_top_level:
  "convertToTuple
     [\<lparr>Name = ''ProgramStart'', isType = ''Program'', ArgTypes = None,
       Instructions =
         [\<lparr>Action = ''send'', InsLine = 2, SourceLine = 1, AnchorLine = (0, False),
            Params = [''foo'', ''1''],
            ArgSet = Some \<lparr>Names = [''x''], Types = [0]\<rparr>\<rparr>]\<rparr>] =
   ArrayObject
     [HashObject [(''name'', StringObject ''ProgramStart''), (''type'', StringObject ''Program''),
        (''arg_set'', HashObject [(''names'', ArrayObject [StringObject ''x'']),
                                  (''types'', ArrayObject [IntegerObject 0])]),
        (''instructions'', ArrayObject
          [HashObject [(''action'', StringObject ''send''), (''line'', IntegerObject 2),
             (''source_line'', IntegerObject 1), (''anchor'', IntegerObject 0),
             (''params'', ArrayObject [StringObject ''foo'', StringObject ''1''])]])],
      HashObject [(''name'', StringObject ''ProgramStart''), (''type'', StringObject ''Program''),
        (''arg_set'', HashObject [(''names'', ArrayObject [StringObject ''x'']),
                                  (''types'', ArrayObject [IntegerObject 0])]),
        (''instructions'', ArrayObject
          [HashObject [(''action'', StringObject ''send''), (''line'', IntegerObject 2),
             (''source_line'', IntegerObject 1), (''anchor'', IntegerObject 0),
             (''params'', ArrayObject [StringObject ''foo'', StringObject ''1''])]])]]"
  by (simp add: convertToTuple_def hInsts_of_def hInst_of_def getArgNameType_def Let_def)

text \<open>
  The record of an instruction set has the key arg_types exactly when \<^verbatim>\<open>ArgTypes()\<close>
  is not nil; \<^verbatim>\<open>getArgNameType\<close> gives the names and the types in order, so the two
  arrays have the same length when the argument set's names and types have.
\<close>

theorem convertToTuple_arg_types:
  "map_of (hInsts_of insts) ''arg_types'' = map_option getArgNameType (ArgTypes insts)
   \<and> (ArgTypes insts = None \<longrightarrow> map_of (hInsts_of insts) ''arg_types'' = None)
   \<and> getArgNameType argSet =
       HashObject [(''names'', ArrayObject (map StringObject (Names argSet))),
                   (''types'', ArrayObject (map IntegerObject (Types argSet)))]
   \<and> (length (Names argSet) = length (Types argSet) \<longrightarrow>
        length (map StringObject (Names argSet)) = length (map IntegerObject (Types argSet)))"
  by (simp add: hInsts_of_arg_types getArgNameType_def Let_def)

text \<open>
  A set of a method definition with one parameter, and the top-level set.
\<close>

theorem convertToTuple_arg_types_witness:
  "map_of (hInsts_of \<lparr>Name = ''foo'', isType = ''Def'',
       ArgTypes = Some \<lparr>Names = [''x''], Types = [0]\<rparr>, Instructions = []\<rparr>) ''arg_types'' =
     Some (HashObject [(''names'', ArrayObject [StringObject ''x'']),
                       (''types'', ArrayObject [IntegerObject 0])])
   \<and> map_of (hInsts_of \<lparr>Name = ''ProgramStart'', isType = ''Program'',
       ArgTypes = None, Instructions = []\<rparr>) ''arg_types'' = None"
  using convertToTuple_arg_types
      [of "\<lparr>Name = ''foo'', isType = ''Def'',
            ArgTypes = Some \<lparr>Names = [''x''], Types = [0]\<rparr>, Instructions = []\<rparr>"
          "\<lparr>Names = [''x''], Types = [0]\<rparr>"]
    convertToTuple_arg_types
      [of "\<lparr>Name = ''ProgramStart'', isType = ''Program'',
            ArgTypes = None, Instructions = []\<rparr>"
          "\<lparr>Names = [''x''], Types = [0]\<rparr>"]
  by simp

end
